theory Spec2Isabelle
  imports Complex_Main
begin

section \<open>The buffering classes of \<open>qualysapi/api_objects.py\<close>\<close>

text \<open>
  The model covers \<open>BufferQueue\<close>, \<open>BufferStats\<close>, \<open>BufferConsumer\<close>,
  \<open>ImportBuffer\<close> and \<open>MapReportRunner\<close>. Python exceptions are values of
  \<open>error\<close>; a function that can raise returns \<open>error + 'a\<close> with \<open>Inl\<close> for
  the exception. Mutable objects are passed in and returned updated.
\<close>

subsection \<open>Exceptions\<close>

datatype error =
    ParsingBufferException
  | TypeError
  | NameError
  | AttributeError
  | Empty

subsection \<open>\<open>BufferQueue\<close>\<close>

text \<open>
  \<open>BufferQueue\<close> is declared as a subclass of the \<open>multiprocessing\<close> queue
  and adds \<open>consume\<close> to it. The contents of a queue are the list of its
  items, oldest first. The base class offers \<open>put\<close> and \<open>get\<close>; it defines
  neither \<open>__len__\<close> nor \<open>popleft\<close>, and \<open>BufferQueue\<close> adds neither. So
  \<open>len(self)\<close> raises \<open>TypeError\<close> and \<open>self.popleft()\<close> raises
  \<open>AttributeError\<close>, whatever the queue holds.
\<close>

type_synonym 'a BufferQueue = "'a list"

definition len :: "'a BufferQueue \<Rightarrow> error + int" where
  "len self = Inl TypeError"

definition popleft :: "'a BufferQueue \<Rightarrow> error + ('a \<times> 'a BufferQueue)" where
  "popleft self = Inl AttributeError"

text \<open>
  \<open>[self.popleft() for i in range(n)]\<close>: \<open>n\<close> calls in sequence, the results
  collected in call order; the first exception aborts the comprehension.
\<close>

fun popleft_times :: "nat \<Rightarrow> 'a BufferQueue \<Rightarrow> error + ('a list \<times> 'a BufferQueue)" where
  "popleft_times 0 q = Inr ([], q)"
| "popleft_times (Suc n) q =
     (case popleft q of
        Inl e \<Rightarrow> Inl e
      | Inr (x, q') \<Rightarrow>
          (case popleft_times n q' of
             Inl e \<Rightarrow> Inl e
           | Inr (xs, q'') \<Rightarrow> Inr (x # xs, q'')))"

text \<open>
  \<^verbatim>\<open>
  def consume(self, lim):
      lim = len(self) if len(self) < lim else lim
      return [self.popleft() for i in range(lim)]
  \<close>
  \<open>lim\<close> is a Python integer; \<open>range\<close> of a negative number is empty. The
  conditional expression evaluates its test \<open>len(self) < lim\<close> first and then
  the chosen branch. The result is the returned list paired with the queue as
  the call leaves it.
\<close>

definition consume :: "int \<Rightarrow> 'a BufferQueue \<Rightarrow> error + ('a list \<times> 'a BufferQueue)" where
  "consume limit self =
     (case len self of
        Inl e \<Rightarrow> Inl e
      | Inr n \<Rightarrow>
          (if n < limit then
             (case len self of
                Inl e \<Rightarrow> Inl e
              | Inr n' \<Rightarrow> popleft_times (nat n') self)
           else popleft_times (nat limit) self))"

subsection \<open>\<open>BufferStats\<close>\<close>

record BufferStats =
  processed :: int
  updates :: int
  adds :: int
  deletes :: int
  start_time :: "rat option"
  end_time :: "rat option"

text \<open>
  \<^verbatim>\<open>
  def calculate_processing_average(self):
      '''Function to give the average time per operation between start_time,
      end_time and number processed.  Useful for metrics.'''
      pass
  \<close>
  The body is \<open>pass\<close>: the call raises nothing and returns Python's \<open>None\<close>,
  here the \<open>None\<close> of \<open>rat option\<close>.
\<close>

definition calculate_processing_average :: "BufferStats \<Rightarrow> error + rat option" where
  "calculate_processing_average self = Inr None"

definition increment_updates :: "BufferStats \<Rightarrow> BufferStats" where
  "increment_updates self = self\<lparr>updates := updates self + 1\<rparr>"

definition increment_insertions :: "BufferStats \<Rightarrow> BufferStats" where
  "increment_insertions self = self\<lparr>adds := adds self + 1\<rparr>"

definition decrement :: "BufferStats \<Rightarrow> BufferStats" where
  "decrement self = self\<lparr>deletes := deletes self + 1\<rparr>"

subsection \<open>Classes and \<open>super\<close>\<close>

text \<open>
  \<open>BufferConsumer\<close> and \<open>MapReportRunner\<close> are both declared as direct
  subclasses of \<open>Process\<close>. The two-argument form \<open>super(C, self)\<close> raises
  \<open>TypeError\<close> unless the class of \<open>self\<close> has \<open>C\<close> in its method resolution
  order.
\<close>

datatype py_class = Process_class | BufferConsumer_class | MapReportRunner_class

fun mro :: "py_class \<Rightarrow> py_class list" where
  "mro Process_class = [Process_class]"
| "mro BufferConsumer_class = [BufferConsumer_class, Process_class]"
| "mro MapReportRunner_class = [MapReportRunner_class, Process_class]"

definition super :: "py_class \<Rightarrow> py_class \<Rightarrow> error + unit" where
  "super c self_class = (if c \<in> set (mro self_class) then Inr () else Inl TypeError)"

subsection \<open>Blocking reads\<close>

text \<open>
  \<open>self.queue.get(timeout=t)\<close> for a reader with no concurrent writer: a
  waiting item is returned at once; on an empty queue the call blocks for the
  whole timeout and raises \<open>queue.Empty\<close>. The first component is the time
  spent blocked, in seconds.
\<close>

definition get :: "rat \<Rightarrow> 'a BufferQueue \<Rightarrow> rat \<times> (error + ('a \<times> 'a BufferQueue))" where
  "get timeout q = (case q of [] \<Rightarrow> (timeout, Inl Empty) | x # rest \<Rightarrow> (0, Inr (x, rest)))"

subsection \<open>\<open>BufferConsumer\<close>\<close>

record 'a BufferConsumer =
  bite_size :: int
  queue :: "'a BufferQueue"
  results_list :: "'a list option"

record 'a BufferConsumer_kwargs =
  kw_bite_size :: "int option"
  kw_queue :: "'a BufferQueue option"
  kw_results_list :: "'a list option"

text \<open>
  \<^verbatim>\<open>
  def __init__(self, **kwargs):
      super(BufferConsumer, self).__init__() #pass to parent
      self.bite_size = kwargs.get('bite_size', 1000)
      self.queue = kwargs.get('queue', None)
      if self.queue is None:
          raise exceptions.ParsingBufferException(...)
      self.results_list = kwargs.get('results_list', None)
  \<close>
\<close>

definition BufferConsumer_init :: "'a BufferConsumer_kwargs \<Rightarrow> error + 'a BufferConsumer" where
  "BufferConsumer_init kwargs =
     (case super BufferConsumer_class BufferConsumer_class of
        Inl e \<Rightarrow> Inl e
      | Inr _ \<Rightarrow>
          (case kw_queue kwargs of
             None \<Rightarrow> Inl ParsingBufferException
           | Some q \<Rightarrow>
               Inr \<lparr>bite_size = (case kw_bite_size kwargs of None \<Rightarrow> 1000 | Some n \<Rightarrow> n),
                    queue = q,
                    results_list = kw_results_list kwargs\<rparr>))"

text \<open>
  \<^verbatim>\<open>
  def run(self):
      done = False
      while not done:
          try:
              item = self.queue.get(timeout=0.5)
              #the base class just logs this stuff
              if self.results_list is not None:
                  self.results_list.append(item)
          except queue.Empty:
              logging.debug('Queue timed out, assuming closed.')
              done = True
  \<close>
  The loop carries the consumer and the time spent blocked so far. Only
  \<open>queue.Empty\<close> is caught; any other exception leaves the loop as \<open>Inl\<close>.
\<close>

function run_loop :: "'a BufferConsumer \<Rightarrow> rat \<Rightarrow> error + ('a BufferConsumer \<times> rat)" where
  "run_loop self waited =
     (case get (1 / 2) (queue self) of
        (t, Inr (item, q')) \<Rightarrow>
          run_loop
            (self\<lparr>queue := q',
                  results_list :=
                    (case results_list self of None \<Rightarrow> None | Some r \<Rightarrow> Some (r @ [item]))\<rparr>)
            (waited + t)
      | (t, Inl e) \<Rightarrow>
          (if e = Empty then Inr (self, waited + t) else Inl e))"
  by pat_completeness auto
termination
  by (relation "measure (\<lambda>(self, waited). length (queue self))")
     (auto simp: get_def split: list.splits)

declare run_loop.simps [simp del]

definition BufferConsumer_run :: "'a BufferConsumer \<Rightarrow> error + ('a BufferConsumer \<times> rat)" where
  "BufferConsumer_run self = run_loop self 0"

subsection \<open>\<open>ImportBuffer\<close>\<close>

text \<open>
  A consumer process is known by its handle, a number. \<open>running\<close> is the list
  the source keeps; \<open>alive\<close> is the set of handles for which \<open>is_alive()\<close>
  answers true, which belongs to the operating system and changes without the
  list being touched. \<open>spawned\<close> counts the processes created so far and
  supplies the next handle. \<open>invoked\<close> records every call of a caller-supplied
  callback with the argument it received. The consumer class is the default
  \<open>BufferConsumer\<close>.

  The queue and the running list are class attributes shared by every
  instance; \<open>__init__\<close> does not rebind them. The model follows one instance
  from a freshly imported module, where both are empty.
\<close>

record ('a, 'f) ImportBuffer =
  ib_queue :: "'a BufferQueue"
  ib_results_list :: "'a list"
  running :: "nat list"
  alive :: "nat set"
  spawned :: nat
  trigger_limit :: int
  ib_bite_size :: int
  max_consumers :: int
  invoked :: "('f \<times> 'a list) list"

record 'f ImportBuffer_kwargs =
  kw_trigger_limit :: "int option"
  kw_ib_bite_size :: "int option"
  kw_max_consumers :: "int option"
  kw_completion_callback :: "'f option"
  kw_consumer_callback :: "'f option"

text \<open>
  \<^verbatim>\<open>
  def __init__(self, *args, **kwargs):
      tlimit = kwargs.pop('trigger_limit', None)
      if tlimit is not None:
          self.trigger_limit = tlimit
      bsize = kwargs.pop('bite_size', None)
      if bsize is not None:
          self.bite_size = bsize
      mxcons = kwargs.pop('max_consumers', None)
      if mxcons is not None:
          self.max_consumers = mxcons
      self.manager = Manager()
      self.results_list = self.manager.list()
      self.consumer = kwargs.pop('consumer', None)
      if self.consumer is None:
          self.consumer = BufferConsumer
  \<close>
  The keys \<open>completion_callback\<close> and \<open>consumer_callback\<close> are never read.
\<close>

definition ImportBuffer_init :: "'f ImportBuffer_kwargs \<Rightarrow> ('a, 'f) ImportBuffer" where
  "ImportBuffer_init kwargs =
     \<lparr>ib_queue = [],
      ib_results_list = [],
      running = [],
      alive = {},
      spawned = 0,
      trigger_limit = (case kw_trigger_limit kwargs of None \<Rightarrow> 5000 | Some n \<Rightarrow> n),
      ib_bite_size = (case kw_ib_bite_size kwargs of None \<Rightarrow> 1000 | Some n \<Rightarrow> n),
      max_consumers = (case kw_max_consumers kwargs of None \<Rightarrow> 5 | Some n \<Rightarrow> n),
      invoked = []\<rparr>"

text \<open>
  \<^verbatim>\<open>
  for csmr in self.running:
      if not csmr.is_alive():
          self.running.remove(csmr)
  \<close>
  A Python \<open>for\<close> over a list keeps an index into the list itself: each step
  reads the element at the index if the index is still below the current
  length, then moves the index on by one. \<open>remove\<close> deletes the first element
  equal to its argument.
\<close>

function reap_finished :: "nat set \<Rightarrow> nat \<Rightarrow> nat list \<Rightarrow> nat list" where
  "reap_finished live i rs =
     (if i < length rs then
        (if rs ! i \<notin> live then reap_finished live (Suc i) (remove1 (rs ! i) rs)
         else reap_finished live (Suc i) rs)
      else rs)"
  by pat_completeness auto
termination
  by (relation "measure (\<lambda>(live, i, rs). length rs - i)")
     (auto simp: length_remove1)

declare reap_finished.simps [simp del]

text \<open>
  \<open>new_consumer.start()\<close> followed by \<open>self.running.append(new_consumer)\<close>. The
  consumer is built with \<open>queue=self.queue\<close>, which is never \<open>None\<close>, so its
  constructor does not raise here.
\<close>

definition start_consumer :: "('a, 'f) ImportBuffer \<Rightarrow> ('a, 'f) ImportBuffer" where
  "start_consumer self =
     self\<lparr>alive := insert (spawned self) (alive self),
          running := running self @ [spawned self],
          spawned := Suc (spawned self)\<rparr>"

text \<open>
  \<^verbatim>\<open>
  def add(self, item):
      self.queue.put(item)
      #see if we should start a consumer...
      if not len(self.running):
          new_consumer = self.consumer(queue=self.queue, results_list=self.results_list)
          new_consumer.start()
          self.running.append(new_consumer)
      #check for finished consumers and clean them up...
      for csmr in self.running:
          if not csmr.is_alive():
              self.running.remove(csmr)
  \<close>
\<close>

definition add :: "'a \<Rightarrow> ('a, 'f) ImportBuffer \<Rightarrow> ('a, 'f) ImportBuffer" where
  "add item self =
     (let s1 = self\<lparr>ib_queue := ib_queue self @ [item]\<rparr>;
          s2 = (if length (running s1) = 0 then start_consumer s1 else s1)
      in s2\<lparr>running := reap_finished (alive s2) 0 (running s2)\<rparr>)"

text \<open>
  A consumer started by \<open>add\<close> holds references to the buffer's queue and
  result list. \<open>consumer_exits p\<close> is the live process \<open>p\<close> executing
  \<open>BufferConsumer.run\<close> to its end while nothing is being submitted: it takes
  what the queue holds, times out on the empty queue and terminates. On a
  process that has already terminated nothing happens.
\<close>

definition consumer_exits :: "nat \<Rightarrow> ('a, 'f) ImportBuffer \<Rightarrow> ('a, 'f) ImportBuffer" where
  "consumer_exits p self =
     (if p \<in> alive self then
        (case BufferConsumer_run
                \<lparr>bite_size = 1000, queue = ib_queue self,
                 results_list = Some (ib_results_list self)\<rparr> of
           Inr (c, t) \<Rightarrow>
             self\<lparr>ib_queue := queue c,
                  ib_results_list :=
                    (case results_list c of None \<Rightarrow> ib_results_list self | Some r \<Rightarrow> r),
                  alive := alive self - {p}\<rparr>
         | Inl e \<Rightarrow> self\<lparr>alive := alive self - {p}\<rparr>)
      else self)"

text \<open>
  \<open>csmr.join()\<close> blocks until the process has terminated. The caller is the
  only producer, so nothing is submitted meanwhile.
\<close>

definition join :: "nat \<Rightarrow> ('a, 'f) ImportBuffer \<Rightarrow> ('a, 'f) ImportBuffer" where
  "join p self = consumer_exits p self"

text \<open>
  \<^verbatim>\<open>
  def finish(self):
      for csmr in self.running:
          csmr.join()
      # turn this into a list instead of a managed list
      return list(self.results_list)
  \<close>
\<close>

definition finish :: "('a, 'f) ImportBuffer \<Rightarrow> 'a list \<times> ('a, 'f) ImportBuffer" where
  "finish self =
     (let s = fold join (running self) self in (ib_results_list s, s))"




subsection \<open>\<open>MapReportRunner\<close>\<close>

text \<open>Of a \<open>Map\<close> the runner reads only \<open>report_id\<close>.\<close>

record Map =
  name :: "string option"
  report_id :: "nat option"

record 'c MapReportRunner =
  mrr_queue :: "Map BufferQueue"
  redis_cache :: 'c

record 'c MapReportRunner_kwargs =
  kw_mrr_queue :: "Map BufferQueue option"
  kw_redis_cache :: "'c option"

text \<open>
  \<^verbatim>\<open>
  def __init__(self, **kwargs):
      super(BufferConsumer, self).__init__() #pass to parent
      self.queue = kwargs.get('queue', None)
      self.redis_cache = kwargs.get('redis_cache', None)
      if self.queue is None:
          raise ReportRunnerException(...)
      if self.redis_cache is None:
          raise ReportRunnerException(...)
  \<close>
  The first statement names \<open>BufferConsumer\<close>, which is not a base of
  \<open>MapReportRunner\<close>. The name \<open>ReportRunnerException\<close> is neither defined
  nor imported in the module, so evaluating it raises \<open>NameError\<close>.
\<close>

definition MapReportRunner_init :: "'c MapReportRunner_kwargs \<Rightarrow> error + 'c MapReportRunner" where
  "MapReportRunner_init kwargs =
     (case super BufferConsumer_class MapReportRunner_class of
        Inl e \<Rightarrow> Inl e
      | Inr _ \<Rightarrow>
          (case kw_mrr_queue kwargs of
             None \<Rightarrow> Inl NameError
           | Some q \<Rightarrow>
               (case kw_redis_cache kwargs of
                  None \<Rightarrow> Inl NameError
                | Some c \<Rightarrow> Inr \<lparr>mrr_queue = q, redis_cache = c\<rparr>)))"

text \<open>
  \<^verbatim>\<open>
  while map_instance.report_id is None:
      # check the cash to see if we are out of date...
      rconn = self.redis_cache.getConnection()
      rconn.load_api_object(obj=map_instance)
      # recheck, and if still none then attempt to generate a
      # report for the map_instance.
      if map_instance.report_id is None:
          pass
  \<close>
  The cache is outside the module: \<open>load\<close> stands for
  \<open>getConnection().load_api_object\<close>, which updates the map in place and may
  change the cache. The inner \<open>if\<close> does nothing in either case. The loop has
  no bound, so the function is partial: \<open>None\<close> means that it never returns.
\<close>

partial_function (option) await_report ::
  "('c \<Rightarrow> Map \<Rightarrow> Map \<times> 'c) \<Rightarrow> 'c \<Rightarrow> Map \<Rightarrow> (Map \<times> 'c) option" where
  "await_report load c map_instance =
     (if report_id map_instance = None then
        (case load c map_instance of (m', c') \<Rightarrow> await_report load c' m')
      else Some (map_instance, c))"

text \<open>
  \<^verbatim>\<open>
  def run(self):
      done = False
      while not done:
          try:
              map_instance = self.queue.get(timeout=1)
              while map_instance.report_id is None:
                  ...
          except queue.Empty:
              logging.debug('Queue timed out, assuming closed.')
              done = True
  \<close>
  As for the consumer, the loop carries the runner and the time spent blocked.
\<close>

partial_function (option) MapReportRunner_loop ::
  "('c \<Rightarrow> Map \<Rightarrow> Map \<times> 'c) \<Rightarrow> 'c MapReportRunner \<Rightarrow> rat \<Rightarrow>
     (error + ('c MapReportRunner \<times> rat)) option" where
  "MapReportRunner_loop load self waited =
     (case get 1 (mrr_queue self) of
        (t, Inr (map_instance, q')) \<Rightarrow>
          Option.bind (await_report load (redis_cache self) map_instance)
            (\<lambda>(m', c'). MapReportRunner_loop load (self\<lparr>mrr_queue := q', redis_cache := c'\<rparr>)
                           (waited + t))
      | (t, Inl e) \<Rightarrow>
          (if e = Empty then Some (Inr (self, waited + t)) else Some (Inl e)))"

definition MapReportRunner_run ::
  "('c \<Rightarrow> Map \<Rightarrow> Map \<times> 'c) \<Rightarrow> 'c MapReportRunner \<Rightarrow> (error + ('c MapReportRunner \<times> rat)) option" where
  "MapReportRunner_run load self = MapReportRunner_loop load self 0"

section \<open>Properties\<close>

subsection \<open>Facts about \<open>consume\<close>\<close>

lemma consume_raises: "consume limit self = Inl TypeError"
  by (simp add: consume_def len_def)

text \<open>
  Claim C2. A batch pop is documented to return up to \<open>lim\<close> of the oldest
  items in a new list and to remove them from the queue. On a queue holding
  1, 2 and 3, a batch pop with limit 2 returns no items: it raises
  \<open>TypeError\<close> at \<open>len(self)\<close>, and so does the batch pop meant to fetch the
  remainder.
\<close>

theorem consume_raises_TypeError:
  "consume 2 [1, 2, 3 :: nat] = Inl TypeError \<and> consume 5 [3 :: nat] = Inl TypeError"
  by (simp add: consume_def len_def)

subsection \<open>Facts about \<open>BufferConsumer\<close>\<close>

lemma run_loop_result:
  "run_loop self w =
     Inr (self\<lparr>queue := [], results_list := map_option (\<lambda>r. r @ queue self) (results_list self)\<rparr>,
          w + 1 / 2)"
proof (induction "queue self" arbitrary: self w)
  case Nil
  then have "queue self = []" by simp
  then show ?case
    by (subst run_loop.simps) (cases "results_list self"; simp add: get_def)
next
  case (Cons item rest)
  then have q: "queue self = item # rest" by simp
  let ?next = "self\<lparr>queue := rest,
      results_list := (case results_list self of None \<Rightarrow> None | Some r \<Rightarrow> Some (r @ [item]))\<rparr>"
  have step: "run_loop self w = run_loop ?next w"
    by (subst run_loop.simps) (simp add: q get_def)
  have "rest = queue ?next" by simp
  from Cons.hyps(1) [OF this, of w] show ?case
    by (cases "results_list self") (simp_all add: step q)
qed

lemma BufferConsumer_run_result:
  "BufferConsumer_run self =
     Inr (self\<lparr>queue := [], results_list := map_option (\<lambda>r. r @ queue self) (results_list self)\<rparr>,
          1 / 2)"
  by (simp add: BufferConsumer_run_def run_loop_result)

text \<open>
  Claim C4. Each pass of the worker loop makes one read with a timeout of half
  a second. When the read yields an item and a result list is present, the
  item is appended to the list unchanged and the loop goes on with the rest of
  the queue. When the queue is empty the read times out after half a second
  and the loop ends with a normal return, not an exception. A whole run
  therefore returns normally with every queued item appended in queue order,
  having blocked for exactly one timeout.
\<close>

theorem BufferConsumer_run_collects:
  "(queue self = [] \<longrightarrow> run_loop self w = Inr (self, w + 1 / 2)) \<and>
   (\<forall>item rest r. queue self = item # rest \<and> results_list self = Some r \<longrightarrow>
      run_loop self w = run_loop (self\<lparr>queue := rest, results_list := Some (r @ [item])\<rparr>) w) \<and>
   (\<forall>r. results_list self = Some r \<longrightarrow>
      BufferConsumer_run self =
        Inr (self\<lparr>queue := [], results_list := Some (r @ queue self)\<rparr>, 1 / 2))"
proof (intro conjI allI impI)
  assume "queue self = []"
  then show "run_loop self w = Inr (self, w + 1 / 2)"
    by (subst run_loop.simps) (simp add: get_def)
next
  fix item rest r
  assume "queue self = item # rest \<and> results_list self = Some r"
  then show "run_loop self w =
      run_loop (self\<lparr>queue := rest, results_list := Some (r @ [item])\<rparr>) w"
    by (subst run_loop.simps) (simp add: get_def)
next
  fix r
  assume "results_list self = Some r"
  then show "BufferConsumer_run self =
      Inr (self\<lparr>queue := [], results_list := Some (r @ queue self)\<rparr>, 1 / 2)"
    by (simp add: BufferConsumer_run_result)
qed

theorem BufferConsumer_run_collects_witness:
  "BufferConsumer_run \<lparr>bite_size = 1000, queue = [7, 8, 9 :: nat], results_list = Some [1]\<rparr> =
     Inr (\<lparr>bite_size = 1000, queue = [], results_list = Some [1, 7, 8, 9]\<rparr>, 1 / 2) \<and>
   run_loop \<lparr>bite_size = 1000, queue = [7, 8, 9 :: nat], results_list = Some [1]\<rparr> 0 =
     run_loop \<lparr>bite_size = 1000, queue = [8, 9], results_list = Some [1, 7]\<rparr> 0 \<and>
   run_loop \<lparr>bite_size = 1000, queue = [] :: nat list, results_list = Some [1]\<rparr> 3 =
     Inr (\<lparr>bite_size = 1000, queue = [], results_list = Some [1]\<rparr>, 7 / 2)"
  using BufferConsumer_run_collects
          [of "\<lparr>bite_size = 1000, queue = [7, 8, 9 :: nat], results_list = Some [1]\<rparr>" 0]
        BufferConsumer_run_collects
          [of "\<lparr>bite_size = 1000, queue = [] :: nat list, results_list = Some [1]\<rparr>" 3]
  by simp

text \<open>
  Claim C10. A consumer built with a queue and no result list is accepted.
  Its run takes every item off the queue, keeps none of them (the result list
  is still absent afterwards), raises nothing and returns after the timeout on
  the empty queue.
\<close>

theorem BufferConsumer_without_results_list:
  "BufferConsumer_init \<lparr>kw_bite_size = b, kw_queue = Some q, kw_results_list = None\<rparr> =
     Inr \<lparr>bite_size = (case b of None \<Rightarrow> 1000 | Some n \<Rightarrow> n), queue = q, results_list = None\<rparr> \<and>
   BufferConsumer_run
       \<lparr>bite_size = (case b of None \<Rightarrow> 1000 | Some n \<Rightarrow> n), queue = q, results_list = None\<rparr> =
     Inr (\<lparr>bite_size = (case b of None \<Rightarrow> 1000 | Some n \<Rightarrow> n), queue = [], results_list = None\<rparr>,
          1 / 2)"
  by (simp add: BufferConsumer_init_def super_def BufferConsumer_run_result)

subsection \<open>Facts about \<open>BufferStats\<close>\<close>

text \<open>
  Claim C5. The method is documented to give the processing average, which is
  undefined when a timestamp is unset or the two are equal and is
  \<open>processed / (end_time - start_time)\<close> otherwise. It returns \<open>None\<close> and
  raises nothing in each of these cases: with distinct timestamps (where the
  quotient would be 2), with equal timestamps, and with none set.
\<close>

theorem calculate_processing_average_returns_None:
  "calculate_processing_average
     \<lparr>processed = 10, updates = 0, adds = 0, deletes = 0,
      start_time = Some 0, end_time = Some 5\<rparr> = Inr None \<and>
   calculate_processing_average
     \<lparr>processed = 10, updates = 0, adds = 0, deletes = 0,
      start_time = Some 3, end_time = Some 3\<rparr> = Inr None \<and>
   calculate_processing_average
     \<lparr>processed = 10, updates = 0, adds = 0, deletes = 0,
      start_time = None, end_time = None\<rparr> = Inr None"
  by (simp add: calculate_processing_average_def)

subsection \<open>Facts about \<open>ImportBuffer\<close>\<close>

lemma reap_finished_Nil: "reap_finished live i [] = []"
  by (subst reap_finished.simps) simp

lemma reap_finished_single:
  "reap_finished live 0 [p] = (if p \<in> live then [p] else [])"
  by (simp add: reap_finished.simps)

lemma reap_finished_two_dead:
  "p \<notin> live \<Longrightarrow> p' \<notin> live \<Longrightarrow> reap_finished live 0 [p, p'] = [p']"
  by (simp add: reap_finished.simps)

lemma add_invoked: "invoked (add item self) = invoked self"
  by (simp add: add_def start_consumer_def Let_def)

lemma consumer_exits_invoked: "invoked (consumer_exits p self) = invoked self"
  by (simp add: consumer_exits_def BufferConsumer_run_result)

lemma consumer_exits_alive: "alive (consumer_exits p self) = alive self - {p}"
  by (auto simp: consumer_exits_def BufferConsumer_run_result)

lemma consumer_exits_running: "running (consumer_exits p self) = running self"
  by (simp add: consumer_exits_def BufferConsumer_run_result)

lemma fold_join_invoked: "invoked (fold join ps self) = invoked self"
  by (induction ps arbitrary: self) (simp_all add: join_def consumer_exits_invoked)

lemma fold_join_alive: "alive (fold join ps self) = alive self - set ps"
  by (induction ps arbitrary: self) (auto simp: join_def consumer_exits_alive)

lemma fold_join_running: "running (fold join ps self) = running self"
  by (induction ps arbitrary: self) (simp_all add: join_def consumer_exits_running)

lemma fold_add_invoked: "invoked (fold add items self) = invoked self"
  by (induction items arbitrary: self) (simp_all add: add_invoked)

lemma finish_invoked: "invoked (snd (finish self)) = invoked self"
  by (simp add: finish_def Let_def fold_join_invoked)

lemma finish_joins_all:
  "set (running (snd (finish self))) \<inter> alive (snd (finish self)) = {}"
  by (auto simp: finish_def Let_def fold_join_alive fold_join_running)

lemma add_queue: "ib_queue (add item self) = ib_queue self @ [item]"
  by (simp add: add_def start_consumer_def Let_def)


lemma add_starts_none_otherwise:
  "running self \<noteq> [] \<Longrightarrow>
     spawned (add item self) = spawned self \<and> alive (add item self) = alive self"
  by (simp add: add_def Let_def)


lemma fold_add_from_init:
  "items \<noteq> [] \<Longrightarrow>
   fold add items (ImportBuffer_init kwargs) =
     (ImportBuffer_init kwargs)
       \<lparr>ib_queue := items, running := [0], alive := {0}, spawned := Suc 0\<rparr>"
proof -
  let ?S = "\<lambda>q. (ImportBuffer_init kwargs :: ('a, 'b) ImportBuffer)
               \<lparr>ib_queue := q, running := [0], alive := {0}, spawned := Suc 0\<rparr>"
  have first: "add x (ImportBuffer_init kwargs :: ('a, 'b) ImportBuffer) = ?S [x]" for x
    by (simp add: add_def start_consumer_def Let_def ImportBuffer_init_def reap_finished_single)
  have step: "add x (?S q) = ?S (q @ [x])" for x q
    by (simp add: add_def Let_def reap_finished_single)
  have rest: "fold add xs (?S q) = ?S (q @ xs)" for xs q
  proof (induction xs arbitrary: q)
    case Nil
    show ?case by simp
  next
    case (Cons x xs)
    have "fold add (x # xs) (?S q) = fold add xs (?S (q @ [x]))"
      by (simp only: fold_simps step)
    also have "\<dots> = ?S ((q @ [x]) @ xs)"
      by (rule Cons.IH)
    finally show ?case by simp
  qed
  assume "items \<noteq> []"
  then obtain x xs where items: "items = x # xs"
    by (cases items) auto
  have "fold add items (ImportBuffer_init kwargs :: ('a, 'b) ImportBuffer) = fold add xs (?S [x])"
    by (simp only: items fold_simps first)
  also have "\<dots> = ?S ([x] @ xs)"
    by (rule rest)
  finally show ?thesis
    by (simp add: items)
qed

lemma finish_after_uninterrupted_adds:
  "fst (finish (fold add items (ImportBuffer_init kwargs))) = items"
proof (cases "items = []")
  case True
  then show ?thesis
    by (simp add: finish_def ImportBuffer_init_def)
next
  case False
  have "fst (finish ((ImportBuffer_init kwargs :: ('a, 'b) ImportBuffer)
          \<lparr>ib_queue := items, running := [0], alive := {0}, spawned := Suc 0\<rparr>)) = items"
    by (simp add: finish_def join_def consumer_exits_def BufferConsumer_run_result
        ImportBuffer_init_def)
  then show ?thesis
    by (simp only: fold_add_from_init [OF False])
qed

text \<open>
  Claim C1. With \<open>trigger_limit = 1\<close> and \<open>max_consumers = 5\<close>, three items
  are submitted in a row. The first call starts consumer 0. At the third call
  the backlog is three items, above the trigger limit, and one consumer is
  running, below the maximum; the call enqueues the item and starts no further
  consumer: the running list is still \<open>[0]\<close> and one process has been
  spawned in all.
\<close>

theorem add_ignores_trigger_limit:
  "add (3::nat) (add 2 (add 1 (ImportBuffer_init
      \<lparr>kw_trigger_limit = Some 1, kw_ib_bite_size = None, kw_max_consumers = Some 5,
       kw_completion_callback = None :: string option, kw_consumer_callback = None\<rparr>))) =
     \<lparr>ib_queue = [1, 2, 3], ib_results_list = [], running = [0], alive = {0}, spawned = 1,
      trigger_limit = 1, ib_bite_size = 1000, max_consumers = 5, invoked = []\<rparr>"
  by (simp add: add_def start_consumer_def Let_def ImportBuffer_init_def reap_finished_single)

text \<open>
  Claim C3. One item is submitted and consumer 0 is started; the producer then
  pauses, the consumer collects the item, times out on the empty queue and
  terminates. A second item is submitted: the running list still holds the
  dead consumer, so none is started, and the dead one is then removed.
  \<open>finish\<close> has nothing to join and returns a list of one item for two
  submitted; the second item is still in the queue.
\<close>

theorem finish_loses_item_after_idle_exit:
  "finish (add (2::nat) (consumer_exits 0 (add 1 (ImportBuffer_init
      \<lparr>kw_trigger_limit = None, kw_ib_bite_size = None, kw_max_consumers = None,
       kw_completion_callback = None :: string option, kw_consumer_callback = None\<rparr>)))) =
     ([1],
      \<lparr>ib_queue = [2], ib_results_list = [1], running = [], alive = {}, spawned = 1,
       trigger_limit = 5000, ib_bite_size = 1000, max_consumers = 5, invoked = []\<rparr>)"
  by (simp add: finish_def add_def start_consumer_def Let_def ImportBuffer_init_def
      reap_finished_single reap_finished_Nil consumer_exits_def BufferConsumer_run_result)

text \<open>
  Claim C7. A buffer is created with a completion callback, two items are
  submitted and \<open>finish\<close> is called. It returns both items, and the record
  of callback invocations is empty: the callback has not been called.
\<close>

theorem completion_callback_never_invoked:
  "finish (add (2::nat) (add 1 (ImportBuffer_init
      \<lparr>kw_trigger_limit = None, kw_ib_bite_size = None, kw_max_consumers = None,
       kw_completion_callback = Some ''on_buffer_complete'', kw_consumer_callback = None\<rparr>))) =
     ([1, 2],
      \<lparr>ib_queue = [], ib_results_list = [1, 2], running = [0], alive = {}, spawned = 1,
       trigger_limit = 5000, ib_bite_size = 1000, max_consumers = 5, invoked = []\<rparr>)"
  by (simp add: finish_def join_def add_def start_consumer_def Let_def ImportBuffer_init_def
      reap_finished_single consumer_exits_def BufferConsumer_run_result)

text \<open>
  The loop that removes finished consumers skips the element that follows a
  removed one: of two dead consumers in a row only the first is removed. No
  sequence of the buffer's operations builds such a list, as the next lemmas
  show.
\<close>

lemma reap_finished_skips_after_removal:
  "reap_finished {} 0 [0, 1] = [1]"
  by (simp add: reap_finished_two_dead)




subsection \<open>Facts about \<open>MapReportRunner\<close>\<close>

lemma await_report_present:
  "report_id m = Some r \<Longrightarrow> await_report load c m = Some (m, c)"
  by (subst await_report.simps) simp

lemma await_report_returns_with_report:
  assumes "await_report load c m = Some y"
  shows "report_id (fst y) \<noteq> None"
proof (rule await_report.raw_induct [where P = "\<lambda>load c m y. report_id (fst y) \<noteq> None"])
  show "await_report load c m = Some y"
    by (rule assms)
next
  fix f and load :: "'a \<Rightarrow> Map \<Rightarrow> Map \<times> 'a" and c m y
  assume IH: "\<And>load c m y. f load c m = Some y \<Longrightarrow> report_id (fst y) \<noteq> None"
    and body: "(if report_id m = None then (case load c m of (m', c') \<Rightarrow> f load c' m')
               else Some (m, c)) = Some y"
  show "report_id (fst y) \<noteq> None"
  proof (cases "report_id m = None")
    case True
    obtain m' c' where "load c m = (m', c')"
      by (cases "load c m")
    with True body have "f load c' m' = Some y" by simp
    then show ?thesis by (rule IH)
  next
    case False
    with body have "y = (m, c)" by simp
    with False show ?thesis by simp
  qed
qed

lemma await_report_unchanging_cache:
  assumes "report_id m = None"
  shows "await_report (\<lambda>c m. (m, c)) c m = None"
proof (rule ccontr)
  assume "await_report (\<lambda>c m. (m, c)) c m \<noteq> None"
  then obtain y where y: "await_report (\<lambda>c m. (m, c)) c m = Some y"
    by auto
  have "report_id m \<noteq> None"
  proof (rule await_report.raw_induct
      [where P = "\<lambda>load c m y. load = (\<lambda>c m. (m, c)) \<longrightarrow> report_id m \<noteq> None", rule_format])
    show "await_report (\<lambda>c m. (m, c)) c m = Some y"
      by (rule y)
  next
    show "(\<lambda>c m. (m, c)) = (\<lambda>c m. (m, c))" ..
  next
    fix f and load :: "'a \<Rightarrow> Map \<Rightarrow> Map \<times> 'a" and c m y
    assume IH: "\<And>load c m y. f load c m = Some y \<Longrightarrow> load = (\<lambda>c m. (m, c)) \<Longrightarrow>
                  report_id m \<noteq> None"
      and body: "(if report_id m = None then (case load c m of (m', c') \<Rightarrow> f load c' m')
                 else Some (m, c)) = Some y"
      and load: "load = (\<lambda>c m. (m, c))"
    show "report_id m \<noteq> None"
    proof
      assume none: "report_id m = None"
      with body load have "f load c m = Some y" by simp
      from IH [OF this load] none show False by simp
    qed
  qed
  with assms show False by simp
qed

lemma MapReportRunner_loop_all_reported:
  "\<forall>m \<in> set (mrr_queue self). report_id m \<noteq> None \<Longrightarrow>
   MapReportRunner_loop load self w = Some (Inr (self\<lparr>mrr_queue := []\<rparr>, w + 1))"
proof (induction "mrr_queue self" arbitrary: self w)
  case Nil
  then have "mrr_queue self = []" by simp
  then show ?case
    by (subst MapReportRunner_loop.simps) (simp add: get_def)
next
  case (Cons m rest)
  then have q: "mrr_queue self = m # rest" by simp
  with Cons.prems obtain r where m: "report_id m = Some r"
    by auto
  from q Cons.prems have rest: "\<forall>m \<in> set rest. report_id m \<noteq> None"
    by simp
  let ?next = "self\<lparr>mrr_queue := rest\<rparr>"
  have step: "MapReportRunner_loop load self w = MapReportRunner_loop load ?next w"
    by (subst MapReportRunner_loop.simps) (simp add: q get_def await_report_present [OF m])
  have "rest = mrr_queue ?next" by simp
  from Cons.hyps(1) [OF this, of w] rest show ?case
    by (simp add: step)
qed

text \<open>
  Claim C6. The queue holds one map without a report and the cache has
  nothing to add, so that a refresh leaves the map as it was. The run takes
  the map off the queue and then never returns: the inner loop repeats the
  refresh for ever, and the read that would time out on the empty queue is
  not reached.
\<close>

theorem MapReportRunner_run_never_returns:
  "MapReportRunner_run (\<lambda>c m. (m, c))
     \<lparr>mrr_queue = [\<lparr>name = Some ''map'', report_id = None\<rparr>], redis_cache = ()\<rparr> = None"
proof -
  have "await_report (\<lambda>c m. (m, c)) () \<lparr>name = Some ''map'', report_id = None\<rparr> = None"
    by (rule await_report_unchanging_cache) simp
  then show ?thesis
    unfolding MapReportRunner_run_def
    by (subst MapReportRunner_loop.simps) (simp add: get_def)
qed

subsection \<open>Construction\<close>

text \<open>
  A consumer given a queue and no result list is constructed without error.
\<close>

theorem BufferConsumer_accepts_missing_results_list:
  "BufferConsumer_init \<lparr>kw_bite_size = None, kw_queue = Some [1 :: nat], kw_results_list = None\<rparr> =
     Inr \<lparr>bite_size = 1000, queue = [1], results_list = None\<rparr>"
  by (simp add: BufferConsumer_init_def super_def)

text \<open>
  Claim C8, amended. A consumer constructed without a queue raises
  \<open>ParsingBufferException\<close>; constructed with a queue it is accepted,
  whatever is or is not given as result list. A report runner constructed
  without a queue or without a cache raises an exception; it takes no result
  list.
\<close>

theorem construction_needs_queue_and_cache:
  "(kw_queue kwargs = None \<longrightarrow> BufferConsumer_init kwargs = Inl ParsingBufferException) \<and>
   (\<forall>q. kw_queue kwargs = Some q \<longrightarrow>
      BufferConsumer_init kwargs =
        Inr \<lparr>bite_size = (case kw_bite_size kwargs of None \<Rightarrow> 1000 | Some n \<Rightarrow> n),
             queue = q, results_list = kw_results_list kwargs\<rparr>) \<and>
   (kw_mrr_queue mkwargs = None \<or> kw_redis_cache mkwargs = None \<longrightarrow>
      isl (MapReportRunner_init mkwargs))"
  by (simp add: BufferConsumer_init_def MapReportRunner_init_def super_def)

theorem construction_needs_queue_and_cache_witness:
  "BufferConsumer_init \<lparr>kw_bite_size = None, kw_queue = None, kw_results_list = Some [1 :: nat]\<rparr> =
     Inl ParsingBufferException \<and>
   BufferConsumer_init \<lparr>kw_bite_size = Some 10, kw_queue = Some [2 :: nat], kw_results_list = None\<rparr> =
     Inr \<lparr>bite_size = 10, queue = [2], results_list = None\<rparr> \<and>
   isl (MapReportRunner_init \<lparr>kw_mrr_queue = None, kw_redis_cache = Some ()\<rparr>) \<and>
   isl (MapReportRunner_init \<lparr>kw_mrr_queue = Some [], kw_redis_cache = None :: unit option\<rparr>)"
  using construction_needs_queue_and_cache
          [of "\<lparr>kw_bite_size = None, kw_queue = None, kw_results_list = Some [1 :: nat]\<rparr>"
              "\<lparr>kw_mrr_queue = None, kw_redis_cache = Some ()\<rparr>"]
        construction_needs_queue_and_cache
          [of "\<lparr>kw_bite_size = Some 10, kw_queue = Some [2 :: nat], kw_results_list = None\<rparr>"
              "\<lparr>kw_mrr_queue = Some [], kw_redis_cache = None :: unit option\<rparr>"]
  by simp

end
